theory Spec2Isabelle
  imports Main "HOL-Library.Word" "HOL-Library.Multiset"
begin

section \<open>Python values used by ModSyncer.py\<close>

text \<open>
  A raised instance of the Python class \<open>Exception\<close>: its class name and its
  \<open>str()\<close>. The library calls of the source (\<open>requests\<close>, \<open>os\<close>, \<open>open\<close>, the
  subscripts) raise nothing else.
\<close>

datatype exn = Exn string string

fun str_exn :: "exn \<Rightarrow> string" where
  "str_exn (Exn cls msg) = msg"

text \<open>
  What a method of a repository object can raise, since any subclass of
  \<open>ModRepository\<close> can be plugged in: an instance of \<open>Exception\<close>, which
  \<open>except Exception\<close> catches, or an instance of \<open>BaseException\<close> that is not an
  \<open>Exception\<close> (\<open>SystemExit\<close>, \<open>KeyboardInterrupt\<close>, \<open>asyncio.CancelledError\<close>), which
  \<open>except Exception\<close> lets through; the latter by its class name and its \<open>str()\<close>.
\<close>

datatype raised = IsException exn | NotException string string

text \<open>
  The objects \<open>response.json()\<close> can return. \<open>JNull\<close> is Python's \<open>None\<close>; a
  \<open>JObj\<close> is a dict, given as its items (a key is looked up at its first item); a
  number is an integer (a float behaves like one in every function below: it is
  falsy when zero and cannot be subscripted).
\<close>

datatype json =
    JNull
  | JBool bool
  | JNum int
  | JStr string
  | JArr "json list"
  | JObj "(string \<times> json) list"

text \<open>Python truthiness, as \<open>if not x\<close> and \<open>x if y else z\<close> test it.\<close>

fun truthy :: "json \<Rightarrow> bool" where
  "truthy JNull = False"
| "truthy (JBool b) = b"
| "truthy (JNum n) = (n \<noteq> 0)"
| "truthy (JStr s) = (s \<noteq> [])"
| "truthy (JArr xs) = (xs \<noteq> [])"
| "truthy (JObj kvs) = (kvs \<noteq> [])"

text \<open>\<open>obj.get(key, default)\<close>: only a dict has the method.\<close>

fun py_get :: "json \<Rightarrow> string \<Rightarrow> json \<Rightarrow> exn + json" where
  "py_get (JObj kvs) k d = Inr (case map_of kvs k of None \<Rightarrow> d | Some v \<Rightarrow> v)"
| "py_get _ k d = Inl (Exn ''AttributeError'' ''object has no attribute get'')"

text \<open>\<open>obj[0]\<close>.\<close>

fun py_index0 :: "json \<Rightarrow> exn + json" where
  "py_index0 (JArr []) = Inl (Exn ''IndexError'' ''list index out of range'')"
| "py_index0 (JArr (x # xs)) = Inr x"
| "py_index0 (JStr []) = Inl (Exn ''IndexError'' ''string index out of range'')"
| "py_index0 (JStr (c # cs)) = Inr (JStr [c])"
| "py_index0 (JObj kvs) = Inl (Exn ''KeyError'' ''0'')"
| "py_index0 _ = Inl (Exn ''TypeError'' ''object is not subscriptable'')"

text \<open>\<open>obj[key]\<close> for a string key.\<close>

fun py_item :: "json \<Rightarrow> string \<Rightarrow> exn + json" where
  "py_item (JObj kvs) k =
     (case map_of kvs k of None \<Rightarrow> Inl (Exn ''KeyError'' k) | Some v \<Rightarrow> Inr v)"
| "py_item (JArr xs) k = Inl (Exn ''TypeError'' ''list indices must be integers or slices, not str'')"
| "py_item (JStr s) k = Inl (Exn ''TypeError'' ''string indices must be integers, not str'')"
| "py_item _ k = Inl (Exn ''TypeError'' ''object is not subscriptable'')"

text \<open>\<open>str.lower()\<close> on ASCII text (class names are ASCII).\<close>

definition lower_char :: "char \<Rightarrow> char" where
  "lower_char c =
     (let n = (of_char c :: nat) in if 65 \<le> n \<and> n \<le> 90 then char_of (n + 32) else c)"

definition lower :: "string \<Rightarrow> string" where
  "lower s = map lower_char s"

text \<open>\<open>os.path.join(a, b)\<close> of posixpath, for two arguments.\<close>

definition path_join :: "string \<Rightarrow> string \<Rightarrow> string" where
  "path_join a b =
     (if b \<noteq> [] \<and> hd b = CHR ''/'' then b
      else if a = [] \<or> last a = CHR ''/'' then a @ b
      else a @ ''/'' @ b)"

section \<open>The environment: network, file system, log\<close>

type_synonym byte = "8 word"

record response =
  status_code :: nat
  content :: "byte list"
  json_body :: "exn + json"

text \<open>
  \<open>responses w k url headers params\<close> is what the \<open>k\<close>-th call of \<open>requests.get\<close>
  of the run does: it raises, or returns a response. \<open>json_body\<close> is what
  \<open>response.json()\<close> does on it. \<open>makedirs_error\<close> and \<open>open_error\<close> say for which
  paths \<open>os.makedirs\<close> and \<open>open(path, 'wb')\<close> raise. \<open>log\<close> holds the
  \<open>logger.error\<close> records as (logger name, message).
\<close>

record world =
  responses :: "nat \<Rightarrow> json \<Rightarrow> (string \<times> string) list \<Rightarrow> (string \<times> string) list \<Rightarrow> exn + response"
  requests_made :: nat
  files :: "string \<rightharpoonup> byte list"
  dirs :: "string set"
  makedirs_error :: "string \<Rightarrow> exn option"
  open_error :: "string \<Rightarrow> exn option"
  log :: "(string \<times> string) list"

definition requests_get ::
  "json \<Rightarrow> (string \<times> string) list \<Rightarrow> (string \<times> string) list \<Rightarrow> 'z world_scheme
     \<Rightarrow> (exn + response) \<times> 'z world_scheme" where
  "requests_get url hdrs params w =
     (responses w (requests_made w) url hdrs params, w\<lparr>requests_made := Suc (requests_made w)\<rparr>)"

text \<open>\<open>response.raise_for_status()\<close>: HTTPError for a 4xx or 5xx status.\<close>

definition raise_for_status :: "response \<Rightarrow> exn + unit" where
  "raise_for_status r =
     (if 400 \<le> status_code r \<and> status_code r < 600 then Inl (Exn ''HTTPError'' ''HTTP error'')
      else Inr ())"

text \<open>\<open>os.makedirs(path, exist_ok=True)\<close>.\<close>

definition makedirs :: "string \<Rightarrow> 'z world_scheme \<Rightarrow> (exn + unit) \<times> 'z world_scheme" where
  "makedirs p w =
     (case makedirs_error w p of
        Some e \<Rightarrow> (Inl e, w)
      | None \<Rightarrow> (Inr (), w\<lparr>dirs := insert p (dirs w)\<rparr>))"

text \<open>\<open>with open(path, 'wb') as f: f.write(data)\<close>.\<close>

definition write_file :: "string \<Rightarrow> byte list \<Rightarrow> 'z world_scheme \<Rightarrow> (exn + unit) \<times> 'z world_scheme" where
  "write_file p data w =
     (case open_error w p of
        Some e \<Rightarrow> (Inl e, w)
      | None \<Rightarrow> (Inr (), w\<lparr>files := (files w)(p \<mapsto> data)\<rparr>))"

definition logger_error :: "string \<Rightarrow> string \<Rightarrow> 'z world_scheme \<Rightarrow> 'z world_scheme" where
  "logger_error name msg w = w\<lparr>log := log w @ [(name, msg)]\<rparr>"

section \<open>ModRepository and CurseForgeRepository\<close>

record ModRepository =
  cache_dir :: string
  cache_file :: string
  logger :: string

text \<open>\<open>ModRepository.__init__\<close>, for an instance of the class named \<open>cls\<close>.\<close>

definition ModRepository_init ::
  "string \<Rightarrow> string \<Rightarrow> 'z world_scheme \<Rightarrow> (exn + ModRepository) \<times> 'z world_scheme" where
  "ModRepository_init cls root w =
     (let cd = path_join root (lower cls) in
      case makedirs cd w of
        (Inl e, w') \<Rightarrow> (Inl e, w')
      | (Inr _, w') \<Rightarrow>
          (Inr \<lparr>cache_dir = cd, cache_file = path_join cd ''mod_cache.json'', logger = cls\<rparr>, w'))"

text \<open>The base class's two methods raise NotImplementedError.\<close>

definition ModRepository_get_latest_version ::
  "'r ModRepository_scheme \<Rightarrow> string \<Rightarrow> string \<Rightarrow> 'z world_scheme \<Rightarrow> (exn + json) \<times> 'z world_scheme" where
  "ModRepository_get_latest_version self mod_id minecraft_version w =
     (Inl (Exn ''NotImplementedError'' ''Subclasses must implement this method''), w)"

definition ModRepository_download_mod ::
  "'r ModRepository_scheme \<Rightarrow> string \<Rightarrow> json \<Rightarrow> 'z world_scheme \<Rightarrow> (exn + string option) \<times> 'z world_scheme" where
  "ModRepository_download_mod self mod_id version_info w =
     (Inl (Exn ''NotImplementedError'' ''Subclasses must implement this method''), w)"

record CurseForgeRepository = ModRepository +
  headers :: "(string \<times> string) list"

definition BASE_URL :: string where
  "BASE_URL = ''https://api.curseforge.com/v1''"

definition CurseForgeRepository_init ::
  "string \<Rightarrow> string \<Rightarrow> 'z world_scheme \<Rightarrow> (exn + CurseForgeRepository) \<times> 'z world_scheme" where
  "CurseForgeRepository_init api_key root w =
     (case ModRepository_init ''CurseForgeRepository'' root w of
        (Inl e, w') \<Rightarrow> (Inl e, w')
      | (Inr b, w') \<Rightarrow>
          (Inr \<lparr>cache_dir = cache_dir b, cache_file = cache_file b, logger = logger b,
                headers = [(''Accept'', ''application/json''), (''x-api-key'', api_key)]\<rparr>, w'))"

text \<open>The body of the \<open>try\<close> block of \<open>CurseForgeRepository.get_latest_version\<close>.\<close>

definition get_latest_version_try ::
  "CurseForgeRepository \<Rightarrow> string \<Rightarrow> string \<Rightarrow> 'z world_scheme \<Rightarrow> (exn + json) \<times> 'z world_scheme" where
  "get_latest_version_try self mod_id minecraft_version w =
     (let url = BASE_URL @ ''/mods/'' @ mod_id @ ''/files'';
          params = [(''gameVersion'', minecraft_version), (''sortOrder'', ''desc''), (''pageSize'', ''1'')]
      in case requests_get (JStr url) (headers self) params w of
           (Inl e, w') \<Rightarrow> (Inl e, w')
         | (Inr resp, w') \<Rightarrow>
             (case raise_for_status resp of
                Inl e \<Rightarrow> (Inl e, w')
              | Inr _ \<Rightarrow>
                  (case json_body resp of
                     Inl e \<Rightarrow> (Inl e, w')
                   | Inr j \<Rightarrow>
                       (case py_get j ''data'' (JArr []) of
                          Inl e \<Rightarrow> (Inl e, w')
                        | Inr versions \<Rightarrow>
                            (if truthy versions then (py_index0 versions, w')
                             else (Inr JNull, w'))))))"

definition CurseForgeRepository_get_latest_version ::
  "CurseForgeRepository \<Rightarrow> string \<Rightarrow> string \<Rightarrow> 'z world_scheme \<Rightarrow> (exn + json) \<times> 'z world_scheme" where
  "CurseForgeRepository_get_latest_version self mod_id minecraft_version w =
     (case get_latest_version_try self mod_id minecraft_version w of
        (Inl e, w') \<Rightarrow>
          (Inr JNull,
           logger_error (logger self) (''Failed to fetch versions for mod '' @ mod_id @ '': '' @ str_exn e) w')
      | (Inr v, w') \<Rightarrow> (Inr v, w'))"

text \<open>
  The body of the \<open>try\<close> block of \<open>CurseForgeRepository.download_mod\<close>.
  \<open>os.path.join\<close> raises TypeError for a file name that is not a string.
\<close>

definition download_mod_try ::
  "CurseForgeRepository \<Rightarrow> string \<Rightarrow> json \<Rightarrow> 'z world_scheme \<Rightarrow> (exn + string option) \<times> 'z world_scheme" where
  "download_mod_try self mod_id version_info w =
     (case py_item version_info ''downloadUrl'' of
        Inl e \<Rightarrow> (Inl e, w)
      | Inr download_url \<Rightarrow>
          (case py_item version_info ''fileName'' of
             Inl e \<Rightarrow> (Inl e, w)
           | Inr filename \<Rightarrow>
               (let download_dir = path_join (cache_dir self) ''downloads'' in
                case makedirs download_dir w of
                  (Inl e, w1) \<Rightarrow> (Inl e, w1)
                | (Inr _, w1) \<Rightarrow>
                    (case filename of
                       JStr fname \<Rightarrow>
                         (let file_path = path_join download_dir fname in
                          case requests_get download_url (headers self) [] w1 of
                            (Inl e, w2) \<Rightarrow> (Inl e, w2)
                          | (Inr resp, w2) \<Rightarrow>
                              (case raise_for_status resp of
                                 Inl e \<Rightarrow> (Inl e, w2)
                               | Inr _ \<Rightarrow>
                                   (case write_file file_path (content resp) w2 of
                                      (Inl e, w3) \<Rightarrow> (Inl e, w3)
                                    | (Inr _, w3) \<Rightarrow> (Inr (Some file_path), w3))))
                     | _ \<Rightarrow> (Inl (Exn ''TypeError'' ''expected str, bytes or os.PathLike object''), w1)))))"

definition CurseForgeRepository_download_mod ::
  "CurseForgeRepository \<Rightarrow> string \<Rightarrow> json \<Rightarrow> 'z world_scheme \<Rightarrow> (exn + string option) \<times> 'z world_scheme" where
  "CurseForgeRepository_download_mod self mod_id version_info w =
     (case download_mod_try self mod_id version_info w of
        (Inl e, w') \<Rightarrow>
          (Inr None,
           logger_error (logger self) (''Failed to download mod '' @ mod_id @ '': '' @ str_exn e) w')
      | (Inr p, w') \<Rightarrow> (Inr p, w'))"

section \<open>ModConflictDetector\<close>

record ModConflictDetector =
  detector_mods_directory :: string
  detector_logger :: string

definition ModConflictDetector_init :: "string \<Rightarrow> ModConflictDetector" where
  "ModConflictDetector_init mods_directory =
     \<lparr>detector_mods_directory = mods_directory, detector_logger = ''ModConflictDetector''\<rparr>"

text \<open>\<open>detect_conflicts(self)\<close> takes no argument besides the detector and returns the
  list it has just created.\<close>

definition detect_conflicts :: "ModConflictDetector \<Rightarrow> json list" where
  "detect_conflicts self = (let conflicts = [] in conflicts)"

section \<open>ModSyncer\<close>

text \<open>
  A repository object as the syncer sees it: the two methods it calls, bound to the
  instance. \<open>download_mod\<close> returns a path or \<open>None\<close>.
\<close>

record 'w repository =
  get_latest_version :: "string \<Rightarrow> string \<Rightarrow> 'w \<Rightarrow> (raised + json) \<times> 'w"
  download_mod :: "string \<Rightarrow> json \<Rightarrow> 'w \<Rightarrow> (raised + string option) \<times> 'w"

text \<open>The methods of the two classes of the source raise instances of \<open>Exception\<close> only.\<close>

definition raising_Exception :: "(exn + 'a) \<times> 'w \<Rightarrow> (raised + 'a) \<times> 'w" where
  "raising_Exception r =
     (case r of (Inl e, w) \<Rightarrow> (Inl (IsException e), w) | (Inr v, w) \<Rightarrow> (Inr v, w))"

definition base_repository :: "ModRepository \<Rightarrow> ('z world_scheme) repository" where
  "base_repository r =
     \<lparr>get_latest_version = (\<lambda>m v w. raising_Exception (ModRepository_get_latest_version r m v w)),
      download_mod = (\<lambda>m vi w. raising_Exception (ModRepository_download_mod r m vi w))\<rparr>"

definition curseforge_repository :: "CurseForgeRepository \<Rightarrow> ('z world_scheme) repository" where
  "curseforge_repository r =
     \<lparr>get_latest_version =
        (\<lambda>m v w. raising_Exception (CurseForgeRepository_get_latest_version r m v w)),
      download_mod =
        (\<lambda>m vi w. raising_Exception (CurseForgeRepository_download_mod r m vi w))\<rparr>"

record 'w ModSyncer =
  mods_directory :: string
  minecraft_version :: string
  repositories :: "'w repository list"
  syncer_logger :: string
  conflict_detector :: ModConflictDetector

text \<open>\<open>ModSyncer.__init__\<close>; \<open>None\<close> for \<open>repositories\<close> is the default argument.\<close>

definition ModSyncer_init ::
  "string \<Rightarrow> string \<Rightarrow> ('z world_scheme) repository list option \<Rightarrow> 'z world_scheme
     \<Rightarrow> (exn + ('z world_scheme) ModSyncer) \<times> 'z world_scheme" where
  "ModSyncer_init mods_dir mc_version repos w =
     (case makedirs mods_dir w of
        (Inl e, w') \<Rightarrow> (Inl e, w')
      | (Inr _, w') \<Rightarrow>
          (Inr \<lparr>mods_directory = mods_dir, minecraft_version = mc_version,
                repositories = (case repos of None \<Rightarrow> [] | Some rs \<Rightarrow> rs),
                syncer_logger = ''ModSyncer'',
                conflict_detector = ModConflictDetector_init mods_dir\<rparr>, w'))"

text \<open>An entry of \<open>updated_mods\<close>: the dict \<open>_sync_single_mod\<close> returns.\<close>

record synced_mod =
  mod_id :: string
  version :: json
  download_path :: string

record report =
  updated_mods :: "synced_mod list"
  failed_mods :: "string list"
  conflicts :: "json list"

text \<open>The body of the \<open>try\<close> block of \<open>_sync_single_mod\<close>. A path is falsy when it
  is \<open>None\<close> or the empty string.\<close>

definition sync_single_mod_try ::
  "('z world_scheme) ModSyncer \<Rightarrow> string \<Rightarrow> ('z world_scheme) repository \<Rightarrow> 'z world_scheme
     \<Rightarrow> (raised + synced_mod option) \<times> 'z world_scheme" where
  "sync_single_mod_try self m repository w =
     (case get_latest_version repository m (minecraft_version self) w of
        (Inl e, w1) \<Rightarrow> (Inl e, w1)
      | (Inr latest_version, w1) \<Rightarrow>
          (if \<not> truthy latest_version then (Inr None, w1)
           else
             (case download_mod repository m latest_version w1 of
                (Inl e, w2) \<Rightarrow> (Inl e, w2)
              | (Inr p, w2) \<Rightarrow>
                  (case p of
                     None \<Rightarrow> (Inr None, w2)
                   | Some path \<Rightarrow>
                       (if path = [] then (Inr None, w2)
                        else (Inr (Some \<lparr>mod_id = m, version = latest_version,
                                          download_path = path\<rparr>), w2))))))"

text \<open>
  \<open>_sync_single_mod\<close>: what the future of one attempt holds when it is done. The
  handler is \<open>except Exception\<close>: it catches an instance of \<open>Exception\<close>, and anything
  else the \<open>try\<close> block raises leaves the method (the worker stores it in the future).
\<close>

definition sync_single_mod ::
  "('z world_scheme) ModSyncer \<Rightarrow> string \<Rightarrow> ('z world_scheme) repository \<Rightarrow> 'z world_scheme
     \<Rightarrow> (raised + synced_mod option) \<times> 'z world_scheme" where
  "sync_single_mod self m repository w =
     (case sync_single_mod_try self m repository w of
        (Inl (IsException e), w') \<Rightarrow>
          (Inr None,
           logger_error (syncer_logger self) (''Failed to sync mod '' @ m @ '': '' @ str_exn e) w')
      | (Inl (NotException cls msg), w') \<Rightarrow> (Inl (NotException cls msg), w')
      | (Inr r, w') \<Rightarrow> (Inr r, w'))"

text \<open>
  The submission loop: one future per mod of the list and repository of the syncer, in
  this order. A future is the pending call \<open>_sync_single_mod(mod_id, repo)\<close>, and the
  dict \<open>futures\<close> maps it to \<open>mod_id\<close>.
\<close>

definition submit_all ::
  "'w ModSyncer \<Rightarrow> string list \<Rightarrow> (string \<times> 'w repository) list" where
  "submit_all self mod_list =
     concat (map (\<lambda>m. map (\<lambda>repo. (m, repo)) (repositories self)) mod_list)"

text \<open>
  \<open>as_completed(futures)\<close> yields the futures in the order in which they finish, which
  the pool decides. The choices \<open>ks\<close> stand for that decision: at each step the future
  at position \<open>k mod n\<close> of the \<open>n\<close> still pending is the next to finish; when the
  choices run out the rest finish in submission order.
\<close>

fun as_completed :: "nat list \<Rightarrow> 'a list \<Rightarrow> 'a list" where
  "as_completed [] xs = xs"
| "as_completed (k # ks) xs =
     (if xs = [] then []
      else (let i = k mod length xs
            in xs ! i # as_completed ks (take i xs @ drop (Suc i) xs)))"

text \<open>
  What a sync call does that is not part of its report, in order: a future finished and
  was processed by the result loop, or \<open>detect_conflicts\<close> was called on a detector
  (the call has no other argument).
\<close>

datatype event = Completed string | DetectConflicts ModConflictDetector

text \<open>
  When the result loop is left by an exception, the \<open>with\<close> block shuts the executor
  down and waits: the futures not yet processed still run to their end, for their
  effects only.
\<close>

fun run_pending ::
  "('z world_scheme) ModSyncer \<Rightarrow> (string \<times> ('z world_scheme) repository) list
     \<Rightarrow> 'z world_scheme \<Rightarrow> 'z world_scheme" where
  "run_pending self [] w = w"
| "run_pending self ((m, repo) # futures) w =
     run_pending self futures (snd (sync_single_mod self m repo w))"

text \<open>
  The result loop over the finished futures. Each attempt runs as one step on the
  environment, at the moment it finishes; \<open>future.result()\<close> re-raises what the
  attempt raised, and the handler of the loop is \<open>except Exception\<close> again: anything
  else leaves the loop and \<open>sync_mods\<close>. A result that is not \<open>None\<close> is a dict of
  three items, so \<open>if result\<close> holds for it.
\<close>

fun process_results ::
  "('z world_scheme) ModSyncer \<Rightarrow> (string \<times> ('z world_scheme) repository) list
     \<Rightarrow> report \<times> event list \<times> 'z world_scheme
     \<Rightarrow> (raised + report) \<times> event list \<times> 'z world_scheme" where
  "process_results self [] (rep, tr, w) = (Inr rep, tr, w)"
| "process_results self ((m, repo) # futures) (rep, tr, w) =
     (case sync_single_mod self m repo w of
        (Inr result, w') \<Rightarrow>
          (case result of
             Some d \<Rightarrow>
               process_results self futures
                 (rep\<lparr>updated_mods := updated_mods rep @ [d]\<rparr>, tr @ [Completed m], w')
           | None \<Rightarrow>
               process_results self futures
                 (rep\<lparr>failed_mods := failed_mods rep @ [m]\<rparr>, tr @ [Completed m], w'))
      | (Inl (IsException e), w') \<Rightarrow>
          process_results self futures
            (rep\<lparr>failed_mods := failed_mods rep @ [m]\<rparr>, tr @ [Completed m],
             logger_error (syncer_logger self) (''Error syncing mod '' @ m @ '': '' @ str_exn e) w')
      | (Inl (NotException cls msg), w') \<Rightarrow>
          (Inl (NotException cls msg), tr, run_pending self futures w'))"

text \<open>
  \<open>ModSyncer.sync_mods\<close>: the report or what the call raises, the events of the call,
  the environment after. A call that raises does not reach \<open>detect_conflicts\<close>.
\<close>

definition sync_mods ::
  "('z world_scheme) ModSyncer \<Rightarrow> string list \<Rightarrow> nat list \<Rightarrow> 'z world_scheme
     \<Rightarrow> (raised + report) \<times> event list \<times> 'z world_scheme" where
  "sync_mods self mod_list ks w =
     (let report0 = \<lparr>updated_mods = [], failed_mods = [], conflicts = []\<rparr>;
          futures = submit_all self mod_list
      in case process_results self (as_completed ks futures) (report0, [], w) of
           (Inl e, tr, w') \<Rightarrow> (Inl e, tr, w')
         | (Inr rep, tr, w') \<Rightarrow>
             (Inr (rep\<lparr>conflicts := detect_conflicts (conflict_detector self)\<rparr>),
              tr @ [DetectConflicts (conflict_detector self)], w'))"

section \<open>Example objects\<close>

text \<open>An environment with an empty file system and log, in which no file operation
  fails, for a given remote side.\<close>

definition fresh_world ::
  "(nat \<Rightarrow> json \<Rightarrow> (string \<times> string) list \<Rightarrow> (string \<times> string) list \<Rightarrow> exn + response) \<Rightarrow> world" where
  "fresh_world remote =
     \<lparr>responses = remote, requests_made = 0, files = Map.empty, dirs = {},
      makedirs_error = (\<lambda>p. None), open_error = (\<lambda>p. None), log = []\<rparr>"

definition offline :: "nat \<Rightarrow> json \<Rightarrow> (string \<times> string) list \<Rightarrow> (string \<times> string) list \<Rightarrow> exn + response" where
  "offline k url hdrs params = Inl (Exn ''ConnectionError'' ''connection refused'')"

text \<open>A repository double: its methods answer from two tables and touch nothing.\<close>

definition table_repository ::
  "(string \<Rightarrow> raised + json) \<Rightarrow> (string \<Rightarrow> raised + string option) \<Rightarrow> world repository" where
  "table_repository resolve fetch =
     \<lparr>get_latest_version = (\<lambda>m v w. (resolve m, w)),
      download_mod = (\<lambda>m vi w. (fetch m, w))\<rparr>"

definition example_syncer :: "world repository list \<Rightarrow> world ModSyncer" where
  "example_syncer repos =
     \<lparr>mods_directory = ''./mods'', minecraft_version = ''1.19.2'', repositories = repos,
      syncer_logger = ''ModSyncer'', conflict_detector = ModConflictDetector_init ''./mods''\<rparr>"

definition good_repository :: "world repository" where
  "good_repository =
     table_repository (\<lambda>m. Inr (JObj [(''fileName'', JStr (m @ ''.jar''))]))
                      (\<lambda>m. Inr (Some (''cache/'' @ m @ ''.jar'')))"

definition broken_repository :: "world repository" where
  "broken_repository =
     table_repository (\<lambda>m. Inl (IsException (Exn ''RuntimeError'' ''boom''))) (\<lambda>m. Inr None)"

text \<open>A repository double whose resolve calls \<open>sys.exit(1)\<close>.\<close>

definition exiting_repository :: "world repository" where
  "exiting_repository =
     table_repository (\<lambda>m. Inl (NotException ''SystemExit'' ''1'')) (\<lambda>m. Inr None)"

section \<open>Notions used in the statements\<close>

text \<open>The package identifiers a report holds, with multiplicity.\<close>

definition reported :: "report \<Rightarrow> string multiset" where
  "reported rep = mset (map mod_id (updated_mods rep)) + mset (failed_mods rep)"

text \<open>
  An attempt faults when its resolve raises an \<open>Exception\<close> or finds nothing (a falsy
  version), or its fetch raises an \<open>Exception\<close> or returns no path.
\<close>

definition attempt_faults ::
  "('z world_scheme) ModSyncer \<Rightarrow> string \<Rightarrow> ('z world_scheme) repository \<Rightarrow> 'z world_scheme \<Rightarrow> bool" where
  "attempt_faults self m repo w =
     (case get_latest_version repo m (minecraft_version self) w of
        (Inl (IsException e), w1) \<Rightarrow> True
      | (Inl (NotException cls msg), w1) \<Rightarrow> False
      | (Inr v, w1) \<Rightarrow>
          (if truthy v then
             (case download_mod repo m v w1 of
                (Inl (IsException e), w2) \<Rightarrow> True
              | (Inl (NotException cls msg), w2) \<Rightarrow> False
              | (Inr p, w2) \<Rightarrow> p = None \<or> p = Some [])
           else True))"

text \<open>What the resolve or the fetch of an attempt raises that is not an \<open>Exception\<close>.\<close>

definition attempt_escape ::
  "('z world_scheme) ModSyncer \<Rightarrow> string \<Rightarrow> ('z world_scheme) repository \<Rightarrow> 'z world_scheme
     \<Rightarrow> (string \<times> string) option" where
  "attempt_escape self m repo w =
     (case get_latest_version repo m (minecraft_version self) w of
        (Inl (IsException e), w1) \<Rightarrow> None
      | (Inl (NotException cls msg), w1) \<Rightarrow> Some (cls, msg)
      | (Inr v, w1) \<Rightarrow>
          (if truthy v then
             (case download_mod repo m v w1 of
                (Inl (IsException e), w2) \<Rightarrow> None
              | (Inl (NotException cls msg), w2) \<Rightarrow> Some (cls, msg)
              | (Inr p, w2) \<Rightarrow> None)
           else None))"

text \<open>A repository object none of whose methods ever raises anything but an
  \<open>Exception\<close>.\<close>

definition raises_only_Exception :: "'w repository \<Rightarrow> bool" where
  "raises_only_Exception repo =
     ((\<forall>m v w cls msg. fst (get_latest_version repo m v w) \<noteq> Inl (NotException cls msg))
      \<and> (\<forall>m vi w cls msg. fst (download_mod repo m vi w) \<noteq> Inl (NotException cls msg)))"

text \<open>The mods of the attempts that fault, in the order in which the attempts finish,
  each attempt running in the environment the ones before it left.\<close>

fun failed_attempts ::
  "('z world_scheme) ModSyncer \<Rightarrow> (string \<times> ('z world_scheme) repository) list \<Rightarrow> 'z world_scheme
     \<Rightarrow> string list" where
  "failed_attempts self [] w = []"
| "failed_attempts self ((m, repo) # futures) w =
     (if attempt_faults self m repo w then [m] else [])
       @ failed_attempts self futures (snd (sync_single_mod self m repo w))"

text \<open>A repository double that raises while resolving \<open>p1\<close>, finds no version of
  \<open>p2\<close>, raises while fetching \<open>p3\<close>, returns no path for \<open>p4\<close> and serves the rest.\<close>

definition raising_repository :: "world repository" where
  "raising_repository =
     table_repository (\<lambda>m. if m = ''p1'' then Inl (IsException (Exn ''RuntimeError'' ''boom''))
                           else if m = ''p2'' then Inr JNull
                           else Inr (JObj [(''fileName'', JStr (m @ ''.jar''))]))
                      (\<lambda>m. if m = ''p3'' then Inl (IsException (Exn ''OSError'' ''disk full''))
                           else if m = ''p4'' then Inr None
                           else Inr (Some (''cache/'' @ m @ ''.jar'')))"

text \<open>The detectors on which a sync call called \<open>detect_conflicts\<close>, in order.\<close>

fun detector_calls :: "event list \<Rightarrow> ModConflictDetector list" where
  "detector_calls [] = []"
| "detector_calls (Completed m # es) = detector_calls es"
| "detector_calls (DetectConflicts d # es) = d # detector_calls es"

text \<open>A CurseForge repository object as \<open>CurseForgeRepository(api_key, "./mod_cache")\<close>
  builds it.\<close>

definition example_curseforge :: "string \<Rightarrow> CurseForgeRepository" where
  "example_curseforge api_key =
     \<lparr>cache_dir = ''./mod_cache/curseforgerepository'',
      cache_file = ''./mod_cache/curseforgerepository/mod_cache.json'',
      logger = ''CurseForgeRepository'',
      headers = [(''Accept'', ''application/json''), (''x-api-key'', api_key)]\<rparr>"

text \<open>Remote sides: one that has no file for any mod; one that lists, for every mod, a
  file named \<open>mod.jar\<close> and serves an empty body for it; one that lists the same file
  name for every mod and serves a body that changes from request to request.\<close>

definition no_files :: "nat \<Rightarrow> json \<Rightarrow> (string \<times> string) list \<Rightarrow> (string \<times> string) list \<Rightarrow> exn + response" where
  "no_files k url hdrs params =
     Inr \<lparr>status_code = 200, content = [], json_body = Inr (JObj [(''data'', JArr [])])\<rparr>"

definition listing_of_mod_jar :: response where
  "listing_of_mod_jar =
     \<lparr>status_code = 200, content = [],
      json_body = Inr (JObj [(''data'', JArr [JObj
        [(''downloadUrl'', JStr ''https://edge.forgecdn.net/files/mod.jar''),
         (''fileName'', JStr ''mod.jar'')]])])\<rparr>"


definition same_file_name :: "nat \<Rightarrow> json \<Rightarrow> (string \<times> string) list \<Rightarrow> (string \<times> string) list \<Rightarrow> exn + response" where
  "same_file_name k url hdrs params =
     (if params \<noteq> [] then Inr listing_of_mod_jar
      else Inr \<lparr>status_code = 200, content = [of_nat k],
                json_body = Inl (Exn ''JSONDecodeError'' ''Expecting value'')\<rparr>)"

text \<open>What the remote side does on the request \<open>get_latest_version\<close> sends.\<close>

definition listing_answer ::
  "CurseForgeRepository \<Rightarrow> string \<Rightarrow> string \<Rightarrow> 'z world_scheme \<Rightarrow> exn + response" where
  "listing_answer self m v w =
     responses w (requests_made w) (JStr (BASE_URL @ ''/mods/'' @ m @ ''/files'')) (headers self)
       [(''gameVersion'', v), (''sortOrder'', ''desc''), (''pageSize'', ''1'')]"

text \<open>No compatible version: the request succeeds and the answer is an object whose
  \<open>data\<close> is missing or the empty list. A transport fault: the request raises
  (network), or the status is an error status (authentication and the like).\<close>

definition no_compatible_version :: "exn + response \<Rightarrow> bool" where
  "no_compatible_version a =
     (case a of
        Inl e \<Rightarrow> False
      | Inr resp \<Rightarrow>
          (case raise_for_status resp of
             Inl e \<Rightarrow> False
           | Inr u \<Rightarrow>
               (case json_body resp of
                  Inr (JObj kvs) \<Rightarrow> (case map_of kvs ''data'' of None \<Rightarrow> True | Some v \<Rightarrow> v = JArr [])
                | _ \<Rightarrow> False)))"

definition transport_fault :: "exn + response \<Rightarrow> bool" where
  "transport_fault a =
     (case a of
        Inl e \<Rightarrow> True
      | Inr resp \<Rightarrow> (case raise_for_status resp of Inl e \<Rightarrow> True | Inr u \<Rightarrow> False))"

text \<open>\<open>os.path.isabs\<close> of posixpath.\<close>

definition isabs :: "string \<Rightarrow> bool" where
  "isabs p = (p \<noteq> [] \<and> hd p = CHR ''/'')"

text \<open>What the first attempt, in completion order, to raise something that is not an
  \<open>Exception\<close> raises, each attempt running in the environment the ones before it
  left.\<close>

fun first_escape ::
  "('z world_scheme) ModSyncer \<Rightarrow> (string \<times> ('z world_scheme) repository) list \<Rightarrow> 'z world_scheme
     \<Rightarrow> (string \<times> string) option" where
  "first_escape self [] w = None"
| "first_escape self ((m, repo) # futures) w =
     (case attempt_escape self m repo w of
        Some x \<Rightarrow> Some x
      | None \<Rightarrow> first_escape self futures (snd (sync_single_mod self m repo w)))"

section \<open>Lemmas on the coordinator\<close>

lemma mset_as_completed: "mset (as_completed ks xs) = mset xs"
proof (induction ks arbitrary: xs)
  case Nil
  show ?case by simp
next
  case (Cons k ks)
  show ?case
  proof (cases "xs = []")
    case True
    then show ?thesis by simp
  next
    case False
    define i where "i = k mod length xs"
    have i: "i < length xs" using False by (simp add: i_def)
    have "xs = take i xs @ xs ! i # drop (Suc i) xs"
      using i by (rule id_take_nth_drop)
    then have "mset xs = mset (take i xs @ drop (Suc i) xs) + {#xs ! i#}"
      by (metis mset.simps(2) mset_append union_mset_add_mset_right add_mset_add_single)
    then show ?thesis using False Cons.IH [of "take i xs @ drop (Suc i) xs"]
      by (simp add: i_def Let_def)
  qed
qed

lemma mset_without_nth:
  assumes "i < length xs"
  shows "mset xs = add_mset (xs ! i) (mset (take i xs @ drop (Suc i) xs))"
proof -
  have "xs = take i xs @ xs ! i # drop (Suc i) xs"
    using assms by (rule id_take_nth_drop)
  then have "mset xs = mset (take i xs @ xs ! i # drop (Suc i) xs)"
    by simp
  then show ?thesis by simp
qed

text \<open>The choices cover every order in which the futures can finish.\<close>

lemma as_completed_any_order:
  "mset ys = mset xs \<Longrightarrow> \<exists>ks. as_completed ks xs = ys"
proof (induction ys arbitrary: xs)
  case Nil
  then have "xs = []" by simp
  then have "as_completed [] xs = []" by simp
  then show ?case by blast
next
  case (Cons y ys)
  then have "y \<in> set xs"
    by (metis list.set_intros(1) set_mset_mset)
  then obtain i where i: "i < length xs" "xs ! i = y"
    by (auto simp: in_set_conv_nth)
  define xs' where "xs' = take i xs @ drop (Suc i) xs"
  have "mset xs = add_mset y (mset xs')"
    using mset_without_nth [OF i(1)] i(2) by (simp add: xs'_def)
  with Cons.prems have "mset ys = mset xs'" by simp
  then obtain ks where ks: "as_completed ks xs' = ys"
    using Cons.IH by blast
  have "xs \<noteq> []" using i(1) by auto
  then have "as_completed (i # ks) xs = y # ys"
    using i ks by (simp add: xs'_def Let_def)
  then show ?case by blast
qed

lemma sync_single_mod_cases:
  obtains (returns) r w' where "sync_single_mod self m repo w = (Inr r, w')"
  | (escapes) cls msg w' where "sync_single_mod self m repo w = (Inl (NotException cls msg), w')"
proof -
  obtain x w1 where t: "sync_single_mod_try self m repo w = (x, w1)"
    by (cases "sync_single_mod_try self m repo w")
  show ?thesis
  proof (cases x)
    case (Inr r)
    with t have "sync_single_mod self m repo w = (Inr r, w1)"
      by (simp add: sync_single_mod_def)
    then show ?thesis by (rule returns)
  next
    case (Inl e)
    show ?thesis
    proof (cases e)
      case (IsException ex)
      with t Inl have "sync_single_mod self m repo w =
          (Inr None, logger_error (syncer_logger self) (''Failed to sync mod '' @ m @ '': '' @ str_exn ex) w1)"
        by (simp add: sync_single_mod_def)
      then show ?thesis by (rule returns)
    next
      case (NotException cls msg)
      with t Inl have "sync_single_mod self m repo w = (Inl (NotException cls msg), w1)"
        by (simp add: sync_single_mod_def)
      then show ?thesis by (rule escapes)
    qed
  qed
qed

lemma sync_single_mod_mod_id:
  "sync_single_mod self m repo w = (Inr (Some d), w') \<Longrightarrow> mod_id d = m"
  by (auto simp: sync_single_mod_def sync_single_mod_try_def
           split: prod.splits sum.splits if_splits option.splits raised.splits)

lemma sync_single_mod_None_iff:
  "sync_single_mod self m repo w = (Inr r, w') \<Longrightarrow> (r = None) = attempt_faults self m repo w"
  by (auto simp: sync_single_mod_def sync_single_mod_try_def attempt_faults_def
           split: prod.splits sum.splits if_splits option.splits raised.splits)

lemma sync_single_mod_escape_iff:
  "(fst (sync_single_mod self m repo w) = Inl (NotException cls msg))
     = (attempt_escape self m repo w = Some (cls, msg))"
  by (auto simp: sync_single_mod_def sync_single_mod_try_def attempt_escape_def
           split: prod.splits sum.splits if_splits option.splits raised.splits)

lemma sync_single_mod_returns:
  assumes "raises_only_Exception repo"
  shows "\<exists>r w'. sync_single_mod self m repo w = (Inr r, w')"
proof (cases rule: sync_single_mod_cases [of self m repo w])
  case (returns r w')
  then show ?thesis by blast
next
  case (escapes cls msg w')
  then have "attempt_escape self m repo w = Some (cls, msg)"
    using sync_single_mod_escape_iff [of self m repo w cls msg] by simp
  with assms show ?thesis
    by (auto simp: attempt_escape_def raises_only_Exception_def
          split: prod.splits sum.splits if_splits raised.splits
          dest: arg_cong [where f = fst])
qed

lemma process_results_step:
  assumes "sync_single_mod self m repo w = (Inr r, w1)"
  shows "process_results self ((m, repo) # fs) (rep, tr, w) =
           process_results self fs
             (case r of None \<Rightarrow> rep\<lparr>failed_mods := failed_mods rep @ [m]\<rparr>
                      | Some d \<Rightarrow> rep\<lparr>updated_mods := updated_mods rep @ [d]\<rparr>,
              tr @ [Completed m], w1)"
  using assms by (cases r) simp_all

lemma process_results_escape:
  assumes "sync_single_mod self m repo w = (Inl (NotException cls msg), w1)"
  shows "process_results self ((m, repo) # fs) (rep, tr, w) =
           (Inl (NotException cls msg), tr, run_pending self fs w1)"
  using assms by simp

lemma process_results_reported:
  "process_results self fs (rep, tr, w) = (Inr rep', tr', w') \<Longrightarrow>
     reported rep' = reported rep + mset (map fst fs)
     \<and> conflicts rep' = conflicts rep
     \<and> tr' = tr @ map (\<lambda>f. Completed (fst f)) fs"
proof (induction fs arbitrary: rep tr w)
  case Nil
  then show ?case by simp
next
  case (Cons f fs)
  obtain m repo where f: "f = (m, repo)" by (cases f)
  show ?case
  proof (cases rule: sync_single_mod_cases [of self m repo w])
    case (escapes cls msg w1)
    with Cons.prems f show ?thesis by simp
  next
    case (returns r w1)
    show ?thesis
    proof (cases r)
      case None
      with Cons.prems f returns have
        "process_results self fs (rep\<lparr>failed_mods := failed_mods rep @ [m]\<rparr>, tr @ [Completed m], w1) = (Inr rep', tr', w')"
        by simp
      from Cons.IH [OF this] show ?thesis by (simp add: f reported_def)
    next
      case (Some d)
      with Cons.prems f returns have
        "process_results self fs (rep\<lparr>updated_mods := updated_mods rep @ [d]\<rparr>, tr @ [Completed m], w1) = (Inr rep', tr', w')"
        by simp
      from Cons.IH [OF this] sync_single_mod_mod_id [of self m repo w d w1] returns Some
      show ?thesis by (simp add: f reported_def)
    qed
  qed
qed

lemma process_results_failed:
  "process_results self fs (rep, tr, w) = (Inr rep', tr', w') \<Longrightarrow>
     failed_mods rep' = failed_mods rep @ failed_attempts self fs w"
proof (induction fs arbitrary: rep tr w)
  case Nil
  then show ?case by simp
next
  case (Cons f fs)
  obtain m repo where f: "f = (m, repo)" by (cases f)
  show ?case
  proof (cases rule: sync_single_mod_cases [of self m repo w])
    case (escapes cls msg w1)
    with Cons.prems f show ?thesis by simp
  next
    case (returns r w1)
    have n: "(r = None) = attempt_faults self m repo w"
      using returns by (rule sync_single_mod_None_iff)
    show ?thesis
    proof (cases r)
      case None
      with Cons.prems f returns have
        "process_results self fs (rep\<lparr>failed_mods := failed_mods rep @ [m]\<rparr>, tr @ [Completed m], w1) = (Inr rep', tr', w')"
        by simp
      from Cons.IH [OF this] show ?thesis using n None returns by (simp add: f)
    next
      case (Some d)
      with Cons.prems f returns have
        "process_results self fs (rep\<lparr>updated_mods := updated_mods rep @ [d]\<rparr>, tr @ [Completed m], w1) = (Inr rep', tr', w')"
        by simp
      from Cons.IH [OF this] show ?thesis using n Some returns by (simp add: f)
    qed
  qed
qed

lemma process_results_returns:
  assumes "\<forall>f \<in> set fs. raises_only_Exception (snd f)"
  shows "\<exists>rep' tr' w'. process_results self fs (rep, tr, w) = (Inr rep', tr', w')"
  using assms
proof (induction fs arbitrary: rep tr w)
  case Nil
  then show ?case by simp
next
  case (Cons f fs)
  obtain m repo where f: "f = (m, repo)" by (cases f)
  have "raises_only_Exception repo" using Cons.prems f by simp
  then obtain r w1 where s: "sync_single_mod self m repo w = (Inr r, w1)"
    using sync_single_mod_returns by blast
  have rest: "\<forall>f \<in> set fs. raises_only_Exception (snd f)" using Cons.prems by simp
  show ?case
    unfolding f process_results_step [OF s]
    by (rule Cons.IH [OF rest])
qed

lemma submit_all_product:
  "submit_all self mod_list = List.product mod_list (repositories self)"
  by (induction mod_list) (simp_all add: submit_all_def)

lemma sync_mods_Inr:
  assumes "fst (sync_mods self mod_list ks w) = Inr rep"
  obtains rep1 tr1 w1 where
    "process_results self (as_completed ks (submit_all self mod_list))
       (\<lparr>updated_mods = [], failed_mods = [], conflicts = []\<rparr>, [], w) = (Inr rep1, tr1, w1)"
    and "sync_mods self mod_list ks w =
       (Inr (rep1\<lparr>conflicts := detect_conflicts (conflict_detector self)\<rparr>),
        tr1 @ [DetectConflicts (conflict_detector self)], w1)"
    and "rep = rep1\<lparr>conflicts := detect_conflicts (conflict_detector self)\<rparr>"
proof -
  obtain x tr1 w1 where p: "process_results self (as_completed ks (submit_all self mod_list))
      (\<lparr>updated_mods = [], failed_mods = [], conflicts = []\<rparr>, [], w) = (x, tr1, w1)"
    by (metis prod_cases3)
  with assms obtain rep1 where x: "x = Inr rep1"
    by (cases x) (simp_all add: sync_mods_def)
  have s: "sync_mods self mod_list ks w =
       (Inr (rep1\<lparr>conflicts := detect_conflicts (conflict_detector self)\<rparr>),
        tr1 @ [DetectConflicts (conflict_detector self)], w1)"
    using p x by (simp add: sync_mods_def)
  with assms have "rep = rep1\<lparr>conflicts := detect_conflicts (conflict_detector self)\<rparr>"
    by simp
  with p x s show ?thesis using that by simp
qed

lemma sync_mods_reported:
  assumes a: "fst (sync_mods self mod_list ks w) = Inr rep"
  shows "reported rep = mset (map fst (submit_all self mod_list))"
    and "conflicts rep = []"
    and "fst (snd (sync_mods self mod_list ks w))
           = map (\<lambda>f. Completed (fst f)) (as_completed ks (submit_all self mod_list))
               @ [DetectConflicts (conflict_detector self)]"
    and "failed_mods rep = failed_attempts self (as_completed ks (submit_all self mod_list)) w"
proof -
  from a obtain rep1 tr1 w1 where
    p: "process_results self (as_completed ks (submit_all self mod_list))
       (\<lparr>updated_mods = [], failed_mods = [], conflicts = []\<rparr>, [], w) = (Inr rep1, tr1, w1)"
    and s: "sync_mods self mod_list ks w =
       (Inr (rep1\<lparr>conflicts := detect_conflicts (conflict_detector self)\<rparr>),
        tr1 @ [DetectConflicts (conflict_detector self)], w1)"
    and e: "rep = rep1\<lparr>conflicts := detect_conflicts (conflict_detector self)\<rparr>"
    by (rule sync_mods_Inr)
  from process_results_reported [OF p]
  have r: "reported rep1 = mset (map fst (as_completed ks (submit_all self mod_list)))"
    and t: "tr1 = map (\<lambda>f. Completed (fst f)) (as_completed ks (submit_all self mod_list))"
    by (simp_all add: reported_def)
  have m: "mset (map fst (as_completed ks (submit_all self mod_list))) = mset (map fst (submit_all self mod_list))"
    by (simp add: mset_as_completed)
  show "reported rep = mset (map fst (submit_all self mod_list))"
    using r m by (simp add: e reported_def)
  show "conflicts rep = []" by (simp add: e detect_conflicts_def)
  show "fst (snd (sync_mods self mod_list ks w))
           = map (\<lambda>f. Completed (fst f)) (as_completed ks (submit_all self mod_list))
               @ [DetectConflicts (conflict_detector self)]"
    by (simp add: s t)
  show "failed_mods rep = failed_attempts self (as_completed ks (submit_all self mod_list)) w"
    using process_results_failed [OF p] by (simp add: e)
qed

lemma sync_mods_returns:
  assumes "\<forall>repo \<in> set (repositories self). raises_only_Exception repo"
  shows "\<exists>rep. fst (sync_mods self mod_list ks w) = Inr rep"
proof -
  have "set (as_completed ks (submit_all self mod_list)) = set (submit_all self mod_list)"
    by (metis mset_as_completed set_mset_mset)
  then have "\<forall>f \<in> set (as_completed ks (submit_all self mod_list)). raises_only_Exception (snd f)"
    using assms by (auto simp: submit_all_product)
  from process_results_returns [OF this]
  obtain rep1 tr1 w1 where "process_results self (as_completed ks (submit_all self mod_list))
       (\<lparr>updated_mods = [], failed_mods = [], conflicts = []\<rparr>, [], w) = (Inr rep1, tr1, w1)"
    by blast
  then show ?thesis by (simp add: sync_mods_def)
qed


lemma map_fst_submit_all:
  "map fst (submit_all self mod_list) = concat (map (\<lambda>m. replicate (length (repositories self)) m) mod_list)"
  by (induction mod_list) (simp_all add: submit_all_def comp_def map_replicate_const)

lemma set_fst_submit_all:
  assumes "repositories self \<noteq> []"
  shows "set (map fst (submit_all self mod_list)) = set mod_list"
proof -
  have "length (repositories self) \<noteq> 0" using assms by simp
  then have r: "set (replicate (length (repositories self)) m) = {m}" for m :: string
    by (rule set_replicate)
  show ?thesis unfolding map_fst_submit_all by (simp add: r)
qed

lemma process_results_first_escape:
  "fst (process_results self fs (rep, tr, w)) =
     (case first_escape self fs w of
        Some (cls, msg) \<Rightarrow> Inl (NotException cls msg)
      | None \<Rightarrow> fst (process_results self fs (rep, tr, w)))
   \<and> (first_escape self fs w = None \<longrightarrow> (\<exists>rep'. fst (process_results self fs (rep, tr, w)) = Inr rep'))"
proof (induction fs arbitrary: rep tr w)
  case Nil
  show ?case by simp
next
  case (Cons f fs)
  obtain m repo where f: "f = (m, repo)" by (cases f)
  show ?case
  proof (cases rule: sync_single_mod_cases [of self m repo w])
    case (escapes cls msg w1)
    then have "attempt_escape self m repo w = Some (cls, msg)"
      using sync_single_mod_escape_iff [of self m repo w cls msg] by simp
    with escapes show ?thesis by (simp add: f)
  next
    case (returns r w1)
    have "attempt_escape self m repo w = None"
    proof (cases "attempt_escape self m repo w")
      case None
      then show ?thesis .
    next
      case (Some x)
      obtain cls msg where "x = (cls, msg)" by (cases x)
      with Some have "fst (sync_single_mod self m repo w) = Inl (NotException cls msg)"
        using sync_single_mod_escape_iff [of self m repo w cls msg] by simp
      with returns show ?thesis by simp
    qed
    with returns Cons.IH show ?thesis
      unfolding f process_results_step [OF returns] by simp
  qed
qed

lemma sync_mods_first_escape:
  "(first_escape self (as_completed ks (submit_all self mod_list)) w = Some (cls, msg) \<longrightarrow>
      fst (sync_mods self mod_list ks w) = Inl (NotException cls msg))
   \<and> (first_escape self (as_completed ks (submit_all self mod_list)) w = None \<longrightarrow>
      (\<exists>rep. fst (sync_mods self mod_list ks w) = Inr rep))"
proof -
  let ?p = "process_results self (as_completed ks (submit_all self mod_list))
      (\<lparr>updated_mods = [], failed_mods = [], conflicts = []\<rparr>, [], w)"
  have s: "fst (sync_mods self mod_list ks w) =
      (case fst ?p of Inl e \<Rightarrow> Inl e
       | Inr rep \<Rightarrow> Inr (rep\<lparr>conflicts := detect_conflicts (conflict_detector self)\<rparr>))"
    by (simp add: sync_mods_def split: prod.splits sum.splits)
  note e = process_results_first_escape
    [of self "as_completed ks (submit_all self mod_list)"
        "\<lparr>updated_mods = [], failed_mods = [], conflicts = []\<rparr>" "[]" w]
  show ?thesis
  proof (intro conjI impI)
    assume "first_escape self (as_completed ks (submit_all self mod_list)) w = Some (cls, msg)"
    with e have "fst ?p = Inl (NotException cls msg)" by simp
    then show "fst (sync_mods self mod_list ks w) = Inl (NotException cls msg)"
      by (simp add: s)
  next
    assume "first_escape self (as_completed ks (submit_all self mod_list)) w = None"
    with e obtain rep' where "fst ?p = Inr rep'" by blast
    then show "\<exists>rep. fst (sync_mods self mod_list ks w) = Inr rep"
      by (simp add: s)
  qed
qed

lemma example_repositories_raise_only_Exception:
  "raises_only_Exception good_repository"
  "raises_only_Exception broken_repository"
  "raises_only_Exception raising_repository"
  by (simp_all add: raises_only_Exception_def good_repository_def broken_repository_def
        raising_repository_def table_repository_def)

section \<open>The claims on the coordinator\<close>

text \<open>
  Claim C1. When the syncer has at least one repository, every mod identifier of the
  list given to \<open>sync_mods\<close> appears in the report the call returns, as the \<open>mod_id\<close>
  of an entry of \<open>updated_mods\<close> or as an entry of \<open>failed_mods\<close>, whatever the order in
  which the attempts finish and whatever the repositories and the environment do; and
  the call does return a report when the repositories raise instances of
  \<open>Exception\<close> only.
\<close>

theorem every_requested_mod_is_reported:
  assumes "repositories self \<noteq> []" and "m \<in> set mod_list"
  shows "(fst (sync_mods self mod_list ks w) = Inr rep \<longrightarrow>
            m \<in> mod_id ` set (updated_mods rep) \<union> set (failed_mods rep))
         \<and> ((\<forall>repo \<in> set (repositories self). raises_only_Exception repo) \<longrightarrow>
            (\<exists>rep'. fst (sync_mods self mod_list ks w) = Inr rep'
               \<and> m \<in> mod_id ` set (updated_mods rep') \<union> set (failed_mods rep')))"
proof -
  have c: "m \<in> mod_id ` set (updated_mods r) \<union> set (failed_mods r)"
    if s: "fst (sync_mods self mod_list ks w) = Inr r" for r
  proof -
    have "reported r = mset (map fst (submit_all self mod_list))"
      using s by (rule sync_mods_reported(1))
    then have "set_mset (reported r) = set (map fst (submit_all self mod_list))"
      by (simp only: set_mset_mset)
    also have "\<dots> = set mod_list"
      using assms(1) by (rule set_fst_submit_all)
    finally have "m \<in> set_mset (reported r)"
      using assms(2) by simp
    then show ?thesis by (simp add: reported_def)
  qed
  show ?thesis
  proof (intro conjI impI)
    assume "fst (sync_mods self mod_list ks w) = Inr rep"
    then show "m \<in> mod_id ` set (updated_mods rep) \<union> set (failed_mods rep)" by (rule c)
  next
    assume "\<forall>repo \<in> set (repositories self). raises_only_Exception repo"
    then obtain r where r: "fst (sync_mods self mod_list ks w) = Inr r"
      using sync_mods_returns by blast
    with c [OF r] show "\<exists>rep'. fst (sync_mods self mod_list ks w) = Inr rep'
               \<and> m \<in> mod_id ` set (updated_mods rep') \<union> set (failed_mods rep')"
      by blast
  qed
qed

theorem every_requested_mod_is_reported_witness:
  "repositories (example_syncer [good_repository, broken_repository]) \<noteq> []
   \<and> ''p2'' \<in> set [''p1'', ''p2'']
   \<and> raises_only_Exception good_repository \<and> raises_only_Exception broken_repository
   \<and> (\<exists>rep. fst (sync_mods (example_syncer [good_repository, broken_repository])
                  [''p1'', ''p2''] [1, 2] (fresh_world offline)) = Inr rep
         \<and> ''p2'' \<in> mod_id ` set (updated_mods rep) \<union> set (failed_mods rep))"
  using every_requested_mod_is_reported
    [of "example_syncer [good_repository, broken_repository]" "''p2''" "[''p1'', ''p2'']"
        "[1, 2]" "fresh_world offline"]
    example_repositories_raise_only_Exception
  by (simp add: example_syncer_def)



text \<open>
  Claim C10. The conflict detector returns the empty list for every detector, and the
  \<open>conflicts\<close> of every report \<open>sync_mods\<close> returns is empty, for all mods,
  repositories, completion orders and environments; the call returns a report when the
  repositories raise instances of \<open>Exception\<close> only.
\<close>

theorem conflicts_always_empty:
  "detect_conflicts d = []
   \<and> (fst (sync_mods self mod_list ks w) = Inr rep \<longrightarrow> conflicts rep = [])
   \<and> ((\<forall>repo \<in> set (repositories self). raises_only_Exception repo) \<longrightarrow>
        (\<exists>rep'. fst (sync_mods self mod_list ks w) = Inr rep' \<and> conflicts rep' = []))"
proof (intro conjI impI)
  show "detect_conflicts d = []" by (simp add: detect_conflicts_def)
next
  assume "fst (sync_mods self mod_list ks w) = Inr rep"
  then show "conflicts rep = []" by (rule sync_mods_reported(2))
next
  assume "\<forall>repo \<in> set (repositories self). raises_only_Exception repo"
  then obtain r where r: "fst (sync_mods self mod_list ks w) = Inr r"
    using sync_mods_returns by blast
  then have "conflicts r = []" by (rule sync_mods_reported(2))
  with r show "\<exists>rep'. fst (sync_mods self mod_list ks w) = Inr rep' \<and> conflicts rep' = []"
    by blast
qed

theorem conflicts_always_empty_witness:
  "raises_only_Exception good_repository
   \<and> (\<exists>rep. fst (sync_mods (example_syncer [good_repository]) [''p1'', ''p2''] [1] (fresh_world offline)) = Inr rep
         \<and> conflicts rep = [])"
  using conflicts_always_empty
    [of "ModConflictDetector_init ''./mods''" "example_syncer [good_repository]" "[''p1'', ''p2'']" "[1]" "fresh_world offline"]
    example_repositories_raise_only_Exception(1)
  by (simp add: example_syncer_def)

text \<open>
  Claim C2, as stated, fails: a syncer without repositories, asked for \<open>p1\<close>, returns
  a report whose \<open>failed_mods\<close> does not hold \<open>p1\<close>.
\<close>

theorem no_repository_counterexample:
  "\<exists>rep. fst (sync_mods (example_syncer []) [''p1''] [] (fresh_world offline)) = Inr rep
     \<and> ''p1'' \<notin> set (failed_mods rep)"
  by (simp add: sync_mods_def submit_all_def example_syncer_def)

text \<open>
  Claim C2, amended. A syncer without repositories submits no attempt: for every mod
  list \<open>sync_mods\<close> returns (it does not raise) the report with \<open>updated_mods\<close>,
  \<open>failed_mods\<close> and \<open>conflicts\<close> all empty, so no requested mod is recorded as failed;
  the only event is the one call of the conflict detector and the environment is
  unchanged.
\<close>

theorem no_repository_empty_report:
  assumes "repositories self = []"
  shows "sync_mods self mod_list ks w =
           (Inr \<lparr>updated_mods = [], failed_mods = [], conflicts = []\<rparr>,
            [DetectConflicts (conflict_detector self)], w)"
proof -
  have "submit_all self mod_list = []"
    using assms by (simp add: submit_all_def)
  moreover have "as_completed ks ([] :: (string \<times> ('a world_scheme) repository) list) = []"
    by (cases ks) simp_all
  ultimately show ?thesis
    by (simp add: sync_mods_def detect_conflicts_def)
qed

theorem no_repository_empty_report_witness:
  "repositories (example_syncer []) = []
   \<and> sync_mods (example_syncer []) [''p1'', ''p2''] [1] (fresh_world offline) =
           (Inr \<lparr>updated_mods = [], failed_mods = [], conflicts = []\<rparr>,
            [DetectConflicts (conflict_detector (example_syncer []))], fresh_world offline)"
  using no_repository_empty_report [of "example_syncer []" "[''p1'', ''p2'']" "[1]" "fresh_world offline"]
  by (simp add: example_syncer_def)

text \<open>
  Claim C4, as stated, fails: a repository whose resolve raises \<open>SystemExit\<close>, which
  is not an \<open>Exception\<close>, is caught neither at the attempt boundary nor by the result
  loop, and \<open>sync_mods\<close> raises it to its caller.
\<close>

theorem exception_propagates_counterexample:
  "fst (sync_single_mod (example_syncer [exiting_repository]) ''p1'' exiting_repository (fresh_world offline))
     = Inl (NotException ''SystemExit'' ''1'')
   \<and> fst (sync_mods (example_syncer [exiting_repository]) [''p1''] [] (fresh_world offline))
     = Inl (NotException ''SystemExit'' ''1'')"
  by (simp add: sync_mods_def submit_all_def example_syncer_def exiting_repository_def
        table_repository_def sync_single_mod_def sync_single_mod_try_def)

text \<open>
  Claim C4, amended. Every fault of an attempt that is an instance of \<open>Exception\<close> is
  caught at the attempt boundary: \<open>_sync_single_mod\<close> returns \<open>None\<close> exactly when the
  attempt faulted (its resolve raised an \<open>Exception\<close> or found nothing, its fetch
  raised an \<open>Exception\<close> or returned no path), and what leaves it otherwise is only
  what the resolve or the fetch raised that is not an \<open>Exception\<close>. When no attempt
  raises such a thing (so when the repositories raise instances of \<open>Exception\<close>
  only), \<open>sync_mods\<close> returns its report, and the \<open>failed_mods\<close> of a returned report
  are exactly the mods of the faulting attempts, one entry for each, in completion
  order. What is not an \<open>Exception\<close> is not caught: \<open>sync_mods\<close> raises what the first
  such attempt raised.
\<close>

theorem attempt_faults_are_failed_entries:
  "(case fst (sync_single_mod self m repo w) of
      Inr r \<Rightarrow> (r = None) = attempt_faults self m repo w \<and> attempt_escape self m repo w = None
    | Inl e \<Rightarrow> (\<exists>cls msg. e = NotException cls msg \<and> attempt_escape self m repo w = Some (cls, msg)))
   \<and> (fst (sync_mods self mod_list ks w) = Inr rep \<longrightarrow>
        failed_mods rep = failed_attempts self (as_completed ks (submit_all self mod_list)) w)
   \<and> (first_escape self (as_completed ks (submit_all self mod_list)) w = None \<longrightarrow>
        (\<exists>rep'. fst (sync_mods self mod_list ks w) = Inr rep'))
   \<and> ((\<forall>repo \<in> set (repositories self). raises_only_Exception repo) \<longrightarrow>
        (\<exists>rep'. fst (sync_mods self mod_list ks w) = Inr rep'
           \<and> failed_mods rep' = failed_attempts self (as_completed ks (submit_all self mod_list)) w))
   \<and> (first_escape self (as_completed ks (submit_all self mod_list)) w = Some (cls, msg) \<longrightarrow>
        fst (sync_mods self mod_list ks w) = Inl (NotException cls msg))"
proof (intro conjI impI)
  show "case fst (sync_single_mod self m repo w) of
      Inr r \<Rightarrow> (r = None) = attempt_faults self m repo w \<and> attempt_escape self m repo w = None
    | Inl e \<Rightarrow> (\<exists>cls msg. e = NotException cls msg \<and> attempt_escape self m repo w = Some (cls, msg))"
  proof (cases rule: sync_single_mod_cases [of self m repo w])
    case (returns r w')
    have "attempt_escape self m repo w = None"
    proof (cases "attempt_escape self m repo w")
      case None
      then show ?thesis .
    next
      case (Some x)
      obtain c s where "x = (c, s)" by (cases x)
      with Some have "fst (sync_single_mod self m repo w) = Inl (NotException c s)"
        using sync_single_mod_escape_iff [of self m repo w c s] by simp
      with returns show ?thesis by simp
    qed
    with returns sync_single_mod_None_iff [OF returns] show ?thesis by simp
  next
    case (escapes c s w')
    then have "attempt_escape self m repo w = Some (c, s)"
      using sync_single_mod_escape_iff [of self m repo w c s] by simp
    with escapes show ?thesis by simp
  qed
next
  assume "fst (sync_mods self mod_list ks w) = Inr rep"
  then show "failed_mods rep = failed_attempts self (as_completed ks (submit_all self mod_list)) w"
    by (rule sync_mods_reported(4))
next
  assume "first_escape self (as_completed ks (submit_all self mod_list)) w = None"
  then show "\<exists>rep'. fst (sync_mods self mod_list ks w) = Inr rep'"
    using sync_mods_first_escape [of self ks mod_list w] by blast
next
  assume "\<forall>repo \<in> set (repositories self). raises_only_Exception repo"
  then obtain r where r: "fst (sync_mods self mod_list ks w) = Inr r"
    using sync_mods_returns by blast
  then have "failed_mods r = failed_attempts self (as_completed ks (submit_all self mod_list)) w"
    by (rule sync_mods_reported(4))
  with r show "\<exists>rep'. fst (sync_mods self mod_list ks w) = Inr rep'
           \<and> failed_mods rep' = failed_attempts self (as_completed ks (submit_all self mod_list)) w"
    by blast
next
  assume "first_escape self (as_completed ks (submit_all self mod_list)) w = Some (cls, msg)"
  then show "fst (sync_mods self mod_list ks w) = Inl (NotException cls msg)"
    using sync_mods_first_escape [of self ks mod_list w cls msg] by blast
qed

theorem attempt_faults_are_failed_entries_witness:
  "attempt_faults (example_syncer [raising_repository]) ''p1'' raising_repository (fresh_world offline)
   \<and> sync_single_mod (example_syncer [raising_repository]) ''p1'' raising_repository (fresh_world offline)
       = (Inr None, (fresh_world offline)\<lparr>log := [(''ModSyncer'', ''Failed to sync mod p1: boom'')]\<rparr>)
   \<and> raises_only_Exception raising_repository
   \<and> first_escape (example_syncer [raising_repository])
        (as_completed [4, 0] (submit_all (example_syncer [raising_repository])
           [''p1'', ''p2'', ''p3'', ''p4'', ''p5''])) (fresh_world offline) = None
   \<and> fst (sync_mods (example_syncer [raising_repository])
         [''p1'', ''p2'', ''p3'', ''p4'', ''p5''] [4, 0] (fresh_world offline))
       = Inr \<lparr>updated_mods = [\<lparr>mod_id = ''p5'', version = JObj [(''fileName'', JStr ''p5.jar'')],
                                download_path = ''cache/p5.jar''\<rparr>],
              failed_mods = [''p1'', ''p2'', ''p3'', ''p4''], conflicts = []\<rparr>
   \<and> failed_attempts (example_syncer [raising_repository])
        (as_completed [4, 0] (submit_all (example_syncer [raising_repository])
           [''p1'', ''p2'', ''p3'', ''p4'', ''p5''])) (fresh_world offline)
       = [''p1'', ''p2'', ''p3'', ''p4'']
   \<and> first_escape (example_syncer [exiting_repository])
        (as_completed [] (submit_all (example_syncer [exiting_repository]) [''p1'']))
        (fresh_world offline) = Some (''SystemExit'', ''1'')
   \<and> fst (sync_mods (example_syncer [exiting_repository]) [''p1''] [] (fresh_world offline))
       = Inl (NotException ''SystemExit'' ''1'')"
proof -
  have a: "attempt_faults (example_syncer [raising_repository]) ''p1'' raising_repository (fresh_world offline)"
    by (simp add: attempt_faults_def raising_repository_def table_repository_def)
  have b: "sync_single_mod (example_syncer [raising_repository]) ''p1'' raising_repository (fresh_world offline)
       = (Inr None, (fresh_world offline)\<lparr>log := [(''ModSyncer'', ''Failed to sync mod p1: boom'')]\<rparr>)"
    by (simp add: example_syncer_def raising_repository_def table_repository_def
          sync_single_mod_def sync_single_mod_try_def logger_error_def fresh_world_def)
  have s: "fst (sync_mods (example_syncer [raising_repository])
         [''p1'', ''p2'', ''p3'', ''p4'', ''p5''] [4, 0] (fresh_world offline))
       = Inr \<lparr>updated_mods = [\<lparr>mod_id = ''p5'', version = JObj [(''fileName'', JStr ''p5.jar'')],
                                download_path = ''cache/p5.jar''\<rparr>],
              failed_mods = [''p1'', ''p2'', ''p3'', ''p4''], conflicts = []\<rparr>"
    by (simp add: sync_mods_def submit_all_def example_syncer_def raising_repository_def
          table_repository_def sync_single_mod_def sync_single_mod_try_def detect_conflicts_def)
  have n: "first_escape (example_syncer [raising_repository])
        (as_completed [4, 0] (submit_all (example_syncer [raising_repository])
           [''p1'', ''p2'', ''p3'', ''p4'', ''p5''])) (fresh_world offline) = None"
    by (simp add: submit_all_def example_syncer_def raising_repository_def
          table_repository_def attempt_escape_def sync_single_mod_def sync_single_mod_try_def)
  have x: "first_escape (example_syncer [exiting_repository])
        (as_completed [] (submit_all (example_syncer [exiting_repository]) [''p1'']))
        (fresh_world offline) = Some (''SystemExit'', ''1'')"
    by (simp add: submit_all_def example_syncer_def exiting_repository_def
          table_repository_def attempt_escape_def)
  note t1 = attempt_faults_are_failed_entries
    [of "example_syncer [raising_repository]" "''p1''" raising_repository "fresh_world offline"
        "[''p1'', ''p2'', ''p3'', ''p4'', ''p5'']" "[4, 0]"
        "\<lparr>updated_mods = [\<lparr>mod_id = ''p5'', version = JObj [(''fileName'', JStr ''p5.jar'')],
                                download_path = ''cache/p5.jar''\<rparr>],
              failed_mods = [''p1'', ''p2'', ''p3'', ''p4''], conflicts = []\<rparr>"]
  from t1 s have f: "failed_attempts (example_syncer [raising_repository])
        (as_completed [4, 0] (submit_all (example_syncer [raising_repository])
           [''p1'', ''p2'', ''p3'', ''p4'', ''p5''])) (fresh_world offline)
       = [''p1'', ''p2'', ''p3'', ''p4'']"
    by simp
  note t2 = attempt_faults_are_failed_entries
    [of "example_syncer [exiting_repository]" "''p1''" exiting_repository "fresh_world offline"
        "[''p1'']" "[]" _ "''SystemExit''" "''1''"]
  from t2 x have e: "fst (sync_mods (example_syncer [exiting_repository]) [''p1''] [] (fresh_world offline))
       = Inl (NotException ''SystemExit'' ''1'')"
    by blast
  from a b s n x f e example_repositories_raise_only_Exception(3) show ?thesis by simp
qed

lemma detector_calls_append:
  "detector_calls (es @ fs) = detector_calls es @ detector_calls fs"
  by (induction es rule: detector_calls.induct) simp_all

lemma detector_calls_Completed: "detector_calls (map (\<lambda>f. Completed (fst f)) fs) = []"
  by (induction fs) simp_all

text \<open>
  Claim C5, amended. In a sync call that returns its report the conflict detector is
  called exactly once, after every attempt has finished and been processed, and the
  call passes nothing but the detector itself (which holds the mods directory it was
  built with): it is not given the synced mods. Its result becomes the \<open>conflicts\<close> of
  the report. The call returns when the repositories raise instances of \<open>Exception\<close>
  only.
\<close>

theorem detector_called_once_without_arguments:
  "(fst (sync_mods self mod_list ks w) = Inr rep \<longrightarrow>
      fst (snd (sync_mods self mod_list ks w))
         = map (\<lambda>f. Completed (fst f)) (as_completed ks (submit_all self mod_list))
             @ [DetectConflicts (conflict_detector self)]
      \<and> detector_calls (fst (snd (sync_mods self mod_list ks w))) = [conflict_detector self]
      \<and> conflicts rep = detect_conflicts (conflict_detector self))
   \<and> ((\<forall>repo \<in> set (repositories self). raises_only_Exception repo) \<longrightarrow>
        (\<exists>rep'. fst (sync_mods self mod_list ks w) = Inr rep'))"
proof (intro conjI impI)
  assume s: "fst (sync_mods self mod_list ks w) = Inr rep"
  show t: "fst (snd (sync_mods self mod_list ks w))
         = map (\<lambda>f. Completed (fst f)) (as_completed ks (submit_all self mod_list))
             @ [DetectConflicts (conflict_detector self)]"
    using s by (rule sync_mods_reported(3))
  show "detector_calls (fst (snd (sync_mods self mod_list ks w))) = [conflict_detector self]"
    by (simp add: t detector_calls_append detector_calls_Completed)
  have "conflicts rep = []" using s by (rule sync_mods_reported(2))
  then show "conflicts rep = detect_conflicts (conflict_detector self)"
    by (simp add: detect_conflicts_def)
next
  assume "\<forall>repo \<in> set (repositories self). raises_only_Exception repo"
  then show "\<exists>rep'. fst (sync_mods self mod_list ks w) = Inr rep'"
    by (rule sync_mods_returns)
qed

theorem detector_called_once_without_arguments_witness:
  "raises_only_Exception good_repository
   \<and> fst (sync_mods (example_syncer [good_repository]) [''p1''] [] (fresh_world offline))
       = Inr \<lparr>updated_mods = [\<lparr>mod_id = ''p1'', version = JObj [(''fileName'', JStr ''p1.jar'')],
                                download_path = ''cache/p1.jar''\<rparr>],
              failed_mods = [], conflicts = []\<rparr>
   \<and> fst (snd (sync_mods (example_syncer [good_repository]) [''p1''] [] (fresh_world offline)))
       = [Completed ''p1'', DetectConflicts (ModConflictDetector_init ''./mods'')]
   \<and> detector_calls (fst (snd (sync_mods (example_syncer [good_repository]) [''p1''] [] (fresh_world offline))))
       = [ModConflictDetector_init ''./mods'']"
proof -
  have s: "fst (sync_mods (example_syncer [good_repository]) [''p1''] [] (fresh_world offline))
       = Inr \<lparr>updated_mods = [\<lparr>mod_id = ''p1'', version = JObj [(''fileName'', JStr ''p1.jar'')],
                                download_path = ''cache/p1.jar''\<rparr>],
              failed_mods = [], conflicts = []\<rparr>"
    by (simp add: sync_mods_def submit_all_def example_syncer_def good_repository_def
          table_repository_def sync_single_mod_def sync_single_mod_try_def detect_conflicts_def)
  note t = detector_called_once_without_arguments
    [of "example_syncer [good_repository]" "[''p1'']" "[]" "fresh_world offline"
        "\<lparr>updated_mods = [\<lparr>mod_id = ''p1'', version = JObj [(''fileName'', JStr ''p1.jar'')],
                                download_path = ''cache/p1.jar''\<rparr>],
              failed_mods = [], conflicts = []\<rparr>"]
  from t s have "fst (snd (sync_mods (example_syncer [good_repository]) [''p1''] [] (fresh_world offline)))
       = [Completed ''p1'', DetectConflicts (ModConflictDetector_init ''./mods'')]"
    and "detector_calls (fst (snd (sync_mods (example_syncer [good_repository]) [''p1''] [] (fresh_world offline))))
       = [ModConflictDetector_init ''./mods'']"
    by (simp_all add: example_syncer_def submit_all_def)
  with s example_repositories_raise_only_Exception(1) show ?thesis by simp
qed

text \<open>
  Claim C5, as stated, fails: in a call that syncs \<open>p1\<close> and in a call that syncs
  nothing, the detector is called on the same input, the detector object alone, so what
  it receives is not the set of synced mods.
\<close>

theorem detector_input_counterexample:
  "fst (sync_mods (example_syncer [good_repository]) [''p1''] [] (fresh_world offline))
     = Inr \<lparr>updated_mods = [\<lparr>mod_id = ''p1'', version = JObj [(''fileName'', JStr ''p1.jar'')],
                              download_path = ''cache/p1.jar''\<rparr>],
            failed_mods = [], conflicts = []\<rparr>
   \<and> fst (sync_mods (example_syncer [broken_repository]) [''p1''] [] (fresh_world offline))
     = Inr \<lparr>updated_mods = [], failed_mods = [''p1''], conflicts = []\<rparr>
   \<and> detector_calls (fst (snd (sync_mods (example_syncer [good_repository]) [''p1''] [] (fresh_world offline))))
       = [\<lparr>detector_mods_directory = ''./mods'', detector_logger = ''ModConflictDetector''\<rparr>]
   \<and> detector_calls (fst (snd (sync_mods (example_syncer [broken_repository]) [''p1''] [] (fresh_world offline))))
       = [\<lparr>detector_mods_directory = ''./mods'', detector_logger = ''ModConflictDetector''\<rparr>]"
  by (simp add: sync_mods_def submit_all_def example_syncer_def good_repository_def broken_repository_def
        table_repository_def sync_single_mod_def sync_single_mod_try_def ModConflictDetector_init_def
        detect_conflicts_def)

section \<open>The CurseForge repository\<close>

text \<open>
  Claim C6, amended. \<open>CurseForgeRepository.get_latest_version\<close> never raises. When no
  compatible version exists it returns \<open>None\<close> and logs nothing; when the request
  raises or the status is an error status it returns \<open>None\<close> as well, and the fault is
  told apart only by the error record the repository's logger receives.
\<close>

theorem get_latest_version_returns_None_for_both:
  "(\<exists>v w'. CurseForgeRepository_get_latest_version self m mv w = (Inr v, w'))
   \<and> (no_compatible_version (listing_answer self m mv w) \<longrightarrow>
        CurseForgeRepository_get_latest_version self m mv w
          = (Inr JNull, w\<lparr>requests_made := Suc (requests_made w)\<rparr>))
   \<and> (transport_fault (listing_answer self m mv w) \<longrightarrow>
        (\<exists>msg. CurseForgeRepository_get_latest_version self m mv w
          = (Inr JNull, w\<lparr>requests_made := Suc (requests_made w),
                           log := log w @ [(logger self, msg)]\<rparr>)))"
proof (intro conjI impI)
  show "\<exists>v w'. CurseForgeRepository_get_latest_version self m mv w = (Inr v, w')"
    by (simp add: CurseForgeRepository_get_latest_version_def split: prod.splits sum.splits)
next
  assume "no_compatible_version (listing_answer self m mv w)"
  then show "CurseForgeRepository_get_latest_version self m mv w
          = (Inr JNull, w\<lparr>requests_made := Suc (requests_made w)\<rparr>)"
    by (auto simp: no_compatible_version_def listing_answer_def
          CurseForgeRepository_get_latest_version_def get_latest_version_try_def requests_get_def
          split: sum.splits json.splits option.splits)
next
  assume "transport_fault (listing_answer self m mv w)"
  then show "\<exists>msg. CurseForgeRepository_get_latest_version self m mv w
          = (Inr JNull, w\<lparr>requests_made := Suc (requests_made w),
                           log := log w @ [(logger self, msg)]\<rparr>)"
    by (auto simp: transport_fault_def listing_answer_def logger_error_def
          CurseForgeRepository_get_latest_version_def get_latest_version_try_def requests_get_def
          split: sum.splits)
qed

theorem get_latest_version_returns_None_for_both_witness:
  "no_compatible_version (listing_answer (example_curseforge ''KEY'') ''p1'' ''1.19.2'' (fresh_world no_files))
   \<and> CurseForgeRepository_get_latest_version (example_curseforge ''KEY'') ''p1'' ''1.19.2'' (fresh_world no_files)
       = (Inr JNull, (fresh_world no_files)\<lparr>requests_made := 1\<rparr>)
   \<and> transport_fault (listing_answer (example_curseforge ''KEY'') ''p1'' ''1.19.2'' (fresh_world offline))
   \<and> CurseForgeRepository_get_latest_version (example_curseforge ''KEY'') ''p1'' ''1.19.2'' (fresh_world offline)
       = (Inr JNull, (fresh_world offline)\<lparr>requests_made := 1,
            log := [(''CurseForgeRepository'', ''Failed to fetch versions for mod p1: connection refused'')]\<rparr>)"
proof -
  have a: "no_compatible_version (listing_answer (example_curseforge ''KEY'') ''p1'' ''1.19.2'' (fresh_world no_files))"
    by (simp add: no_compatible_version_def listing_answer_def fresh_world_def no_files_def raise_for_status_def)
  have b: "transport_fault (listing_answer (example_curseforge ''KEY'') ''p1'' ''1.19.2'' (fresh_world offline))"
    by (simp add: transport_fault_def listing_answer_def fresh_world_def offline_def)
  from a get_latest_version_returns_None_for_both
         [of "example_curseforge ''KEY''" "''p1''" "''1.19.2''" "fresh_world no_files"]
  have c: "CurseForgeRepository_get_latest_version (example_curseforge ''KEY'') ''p1'' ''1.19.2'' (fresh_world no_files)
       = (Inr JNull, (fresh_world no_files)\<lparr>requests_made := 1\<rparr>)"
    by (simp add: fresh_world_def)
  have d: "CurseForgeRepository_get_latest_version (example_curseforge ''KEY'') ''p1'' ''1.19.2'' (fresh_world offline)
       = (Inr JNull, (fresh_world offline)\<lparr>requests_made := 1,
            log := [(''CurseForgeRepository'', ''Failed to fetch versions for mod p1: connection refused'')]\<rparr>)"
    by (simp add: CurseForgeRepository_get_latest_version_def get_latest_version_try_def requests_get_def
          fresh_world_def offline_def logger_error_def example_curseforge_def)
  from a b c d show ?thesis by simp
qed

text \<open>
  Claim C6, as stated, fails: for a remote side without files and for one that cannot
  be reached, \<open>get_latest_version\<close> returns the same value, \<open>None\<close>.
\<close>

theorem not_found_and_fault_counterexample:
  "no_compatible_version (listing_answer (example_curseforge ''KEY'') ''p1'' ''1.19.2'' (fresh_world no_files))
   \<and> transport_fault (listing_answer (example_curseforge ''KEY'') ''p1'' ''1.19.2'' (fresh_world offline))
   \<and> fst (CurseForgeRepository_get_latest_version (example_curseforge ''KEY'') ''p1'' ''1.19.2'' (fresh_world no_files))
       = Inr JNull
   \<and> fst (CurseForgeRepository_get_latest_version (example_curseforge ''KEY'') ''p1'' ''1.19.2'' (fresh_world offline))
       = Inr JNull"
  by (simp add: no_compatible_version_def transport_fault_def listing_answer_def fresh_world_def
        no_files_def offline_def raise_for_status_def CurseForgeRepository_get_latest_version_def
        get_latest_version_try_def requests_get_def)


lemma download_mod_try_Some:
  assumes "download_mod_try r m vi w = (Inr (Some p), w')"
  shows "\<exists>fname url resp.
           py_item vi ''downloadUrl'' = Inr url
           \<and> py_item vi ''fileName'' = Inr (JStr fname)
           \<and> p = path_join (path_join (cache_dir r) ''downloads'') fname
           \<and> responses w (requests_made w) url (headers r) [] = Inr resp
           \<and> files w' p = Some (content resp)"
proof -
  from assms obtain url where u: "py_item vi ''downloadUrl'' = Inr url"
    by (auto simp: download_mod_try_def split: sum.splits)
  from assms u obtain fn where f: "py_item vi ''fileName'' = Inr fn"
    by (auto simp: download_mod_try_def split: sum.splits)
  define dd where "dd = path_join (cache_dir r) ''downloads''"
  from assms u f obtain w1 where m: "makedirs dd w = (Inr (), w1)"
    by (auto simp: download_mod_try_def dd_def Let_def split: sum.splits prod.splits)
  from assms u f m obtain fname where n: "fn = JStr fname"
    by (cases fn) (auto simp: download_mod_try_def dd_def Let_def)
  have w1: "responses w1 = responses w" "requests_made w1 = requests_made w"
    using m by (auto simp: makedirs_def split: option.splits)
  from assms u f m n obtain resp w2 where
    g: "requests_get url (headers r) [] w1 = (Inr resp, w2)"
    by (auto simp: download_mod_try_def dd_def Let_def split: sum.splits prod.splits)
  have resp: "responses w (requests_made w) url (headers r) [] = Inr resp"
    using g w1 by (auto simp: requests_get_def)
  from assms u f m n g have wr: "write_file (path_join dd fname) (content resp) w2 = (Inr (), w')"
    and p: "p = path_join dd fname"
    by (auto simp: download_mod_try_def dd_def Let_def split: sum.splits prod.splits)
  have "files w' (path_join dd fname) = Some (content resp)"
    using wr by (auto simp: write_file_def split: option.splits)
  with u f n p resp show ?thesis by (auto simp: dd_def)
qed

lemma download_mod_Some:
  assumes "CurseForgeRepository_download_mod r m vi w = (Inr (Some p), w')"
  shows "download_mod_try r m vi w = (Inr (Some p), w')"
  using assms by (auto simp: CurseForgeRepository_download_mod_def split: prod.splits sum.splits)






lemma lower_class_name: "lower ''CurseForgeRepository'' = ''curseforgerepository''"
  by code_simp

lemma downloads_dir_shape:
  "path_join c ''downloads'' \<noteq> [] \<and> last (path_join c ''downloads'') \<noteq> CHR ''/''"
  by (simp add: path_join_def)

lemma path_join_relative:
  "a \<noteq> [] \<Longrightarrow> last a \<noteq> CHR ''/'' \<Longrightarrow> \<not> isabs f \<Longrightarrow> path_join a f = a @ ''/'' @ f"
  by (auto simp: path_join_def isabs_def)

lemma ModRepository_init_cache_dir:
  assumes "ModRepository_init cls root w = (Inr b, w1)"
  shows "cache_dir b = path_join root (lower cls)" and "path_join root (lower cls) \<in> dirs w1"
  using assms
  by (auto simp: ModRepository_init_def makedirs_def Let_def split: option.splits)

lemma CurseForgeRepository_init_cache_dir:
  assumes "fst (CurseForgeRepository_init api_key root w) = Inr r"
  shows "cache_dir r = path_join root ''curseforgerepository''"
    and "cache_dir r \<in> dirs (snd (CurseForgeRepository_init api_key root w))"
proof -
  obtain x w1 where i: "ModRepository_init ''CurseForgeRepository'' root w = (x, w1)"
    by (cases "ModRepository_init ''CurseForgeRepository'' root w")
  with assms obtain b where b: "x = Inr b"
    by (cases x) (auto simp: CurseForgeRepository_init_def)
  have i': "ModRepository_init ''CurseForgeRepository'' root w = (Inr b, w1)"
    using i b by simp
  have c: "cache_dir b = path_join root ''curseforgerepository''"
    using ModRepository_init_cache_dir(1) [OF i'] by (simp only: lower_class_name)
  have d: "path_join root ''curseforgerepository'' \<in> dirs w1"
    using ModRepository_init_cache_dir(2) [OF i'] by (simp only: lower_class_name)
  have r: "cache_dir r = cache_dir b" and w: "snd (CurseForgeRepository_init api_key root w) = w1"
    using assms i' by (auto simp: CurseForgeRepository_init_def)
  show "cache_dir r = path_join root ''curseforgerepository''"
    using r c by simp
  then show "cache_dir r \<in> dirs (snd (CurseForgeRepository_init api_key root w))"
    using d w by simp
qed

lemma download_mod_path:
  assumes "fst (CurseForgeRepository_download_mod r m vi w) = Inr (Some p)"
  shows "\<exists>fname. py_item vi ''fileName'' = Inr (JStr fname)
           \<and> p = path_join (path_join (cache_dir r) ''downloads'') fname"
proof -
  obtain w' where "CurseForgeRepository_download_mod r m vi w = (Inr (Some p), w')"
    using assms by (cases "CurseForgeRepository_download_mod r m vi w") simp
  then have "download_mod_try r m vi w = (Inr (Some p), w')"
    by (rule download_mod_Some)
  from download_mod_try_Some [OF this] show ?thesis by blast
qed

text \<open>
  Claim C8, amended. The scratch directory of a CurseForge repository object is the
  cache root it is given joined with the lower-cased class name, and exists once the
  object is built: it depends on the root and the class, not on the instance. A fetch
  that returns a path wrote to the \<open>fileName\<close> of the version info joined to the
  \<open>downloads\<close> directory of the scratch directory: the path depends on that file name
  alone, not on the mod. So two fetches on one repository object write to different
  paths when their file names are different relative names.
\<close>

theorem scratch_directory_and_file_paths:
  "(fst (CurseForgeRepository_init api_key root w0) = Inr r0 \<longrightarrow>
      cache_dir r0 = path_join root ''curseforgerepository''
      \<and> cache_dir r0 \<in> dirs (snd (CurseForgeRepository_init api_key root w0)))
   \<and> (fst (CurseForgeRepository_download_mod r m vi w) = Inr (Some p) \<longrightarrow>
        (\<exists>fname. py_item vi ''fileName'' = Inr (JStr fname)
           \<and> p = path_join (path_join (cache_dir r) ''downloads'') fname))
   \<and> (\<not> isabs f1 \<and> \<not> isabs f2 \<and> f1 \<noteq> f2 \<longrightarrow>
        path_join (path_join (cache_dir r) ''downloads'') f1
          \<noteq> path_join (path_join (cache_dir r) ''downloads'') f2)"
proof (intro conjI impI)
  assume "fst (CurseForgeRepository_init api_key root w0) = Inr r0"
  then show "cache_dir r0 = path_join root ''curseforgerepository''"
    and "cache_dir r0 \<in> dirs (snd (CurseForgeRepository_init api_key root w0))"
    by (rule CurseForgeRepository_init_cache_dir)+
next
  assume "fst (CurseForgeRepository_download_mod r m vi w) = Inr (Some p)"
  then show "\<exists>fname. py_item vi ''fileName'' = Inr (JStr fname)
           \<and> p = path_join (path_join (cache_dir r) ''downloads'') fname"
    by (rule download_mod_path)
next
  assume a: "\<not> isabs f1 \<and> \<not> isabs f2 \<and> f1 \<noteq> f2"
  define dd where "dd = path_join (cache_dir r) ''downloads''"
  have s: "dd \<noteq> []" "last dd \<noteq> CHR ''/''"
    using downloads_dir_shape [of "cache_dir r"] by (simp_all add: dd_def)
  have "path_join dd f1 = dd @ ''/'' @ f1" "path_join dd f2 = dd @ ''/'' @ f2"
    using s a by (simp_all add: path_join_relative)
  with a have "path_join dd f1 \<noteq> path_join dd f2" by simp
  then show "path_join (path_join (cache_dir r) ''downloads'') f1
          \<noteq> path_join (path_join (cache_dir r) ''downloads'') f2"
    by (simp add: dd_def)
qed


theorem scratch_directory_and_file_paths_witness:
  "fst (CurseForgeRepository_init ''KEY'' ''./mod_cache'' (fresh_world offline)) = Inr (example_curseforge ''KEY'')
   \<and> cache_dir (example_curseforge ''KEY'') = ''./mod_cache/curseforgerepository''
   \<and> ''./mod_cache/curseforgerepository''
        \<in> dirs (snd (CurseForgeRepository_init ''KEY'' ''./mod_cache'' (fresh_world offline)))
   \<and> fst (CurseForgeRepository_download_mod (example_curseforge ''KEY'') ''a''
            (JObj [(''downloadUrl'', JStr ''https://edge.forgecdn.net/files/a.jar''),
                   (''fileName'', JStr ''a.jar'')]) (fresh_world same_file_name))
       = Inr (Some ''./mod_cache/curseforgerepository/downloads/a.jar'')
   \<and> \<not> isabs ''a.jar'' \<and> \<not> isabs ''b.jar'' \<and> ''a.jar'' \<noteq> ''b.jar''
   \<and> path_join (path_join (cache_dir (example_curseforge ''KEY'')) ''downloads'') ''a.jar''
       \<noteq> path_join (path_join (cache_dir (example_curseforge ''KEY'')) ''downloads'') ''b.jar''"
proof -
  have i: "fst (CurseForgeRepository_init ''KEY'' ''./mod_cache'' (fresh_world offline)) = Inr (example_curseforge ''KEY'')"
    by (simp add: CurseForgeRepository_init_def ModRepository_init_def makedirs_def lower_class_name
          path_join_def fresh_world_def example_curseforge_def Let_def)
  have d: "fst (CurseForgeRepository_download_mod (example_curseforge ''KEY'') ''a''
            (JObj [(''downloadUrl'', JStr ''https://edge.forgecdn.net/files/a.jar''),
                   (''fileName'', JStr ''a.jar'')]) (fresh_world same_file_name))
       = Inr (Some ''./mod_cache/curseforgerepository/downloads/a.jar'')"
    by (simp add: CurseForgeRepository_download_mod_def download_mod_try_def requests_get_def
          raise_for_status_def makedirs_def write_file_def path_join_def
          fresh_world_def same_file_name_def example_curseforge_def Let_def)
  have a: "\<not> isabs ''a.jar'' \<and> \<not> isabs ''b.jar'' \<and> ''a.jar'' \<noteq> ''b.jar''"
    by (simp add: isabs_def)
  note t = scratch_directory_and_file_paths
    [where api_key = "''KEY''" and root = "''./mod_cache''" and ?w0.0 = "fresh_world offline"
       and ?r0.0 = "example_curseforge ''KEY''" and r = "example_curseforge ''KEY''"
       and ?f1.0 = "''a.jar''" and ?f2.0 = "''b.jar''"]
  from t i have c: "cache_dir (example_curseforge ''KEY'')
        \<in> dirs (snd (CurseForgeRepository_init ''KEY'' ''./mod_cache'' (fresh_world offline)))"
    by blast
  from t a have p: "path_join (path_join (cache_dir (example_curseforge ''KEY'')) ''downloads'') ''a.jar''
       \<noteq> path_join (path_join (cache_dir (example_curseforge ''KEY'')) ''downloads'') ''b.jar''"
    by blast
  have e: "cache_dir (example_curseforge ''KEY'') = ''./mod_cache/curseforgerepository''"
    by (simp add: example_curseforge_def)
  from i d a c p e show ?thesis by simp
qed

text \<open>
  Claim C8, as stated, fails: two repository objects built with different API keys on
  the same cache root have the same scratch directory; and on one repository object the
  fetches of the mods \<open>a\<close> and \<open>b\<close>, whose versions carry the same file name, write
  to the same path, where the file ends up holding the second body only.
\<close>

theorem shared_directory_and_file_counterexample:
  "fst (CurseForgeRepository_init ''KEY1'' ''./mod_cache'' (fresh_world offline)) = Inr (example_curseforge ''KEY1'')
   \<and> fst (CurseForgeRepository_init ''KEY2'' ''./mod_cache'' (fresh_world offline)) = Inr (example_curseforge ''KEY2'')
   \<and> example_curseforge ''KEY1'' \<noteq> example_curseforge ''KEY2''
   \<and> cache_dir (example_curseforge ''KEY1'') = cache_dir (example_curseforge ''KEY2'')
   \<and> fst (sync_mods
         (example_syncer [curseforge_repository (example_curseforge ''KEY1'')]) [''a'', ''b''] []
         (fresh_world same_file_name))
       = Inr \<lparr>updated_mods =
             [\<lparr>mod_id = ''a'',
               version = JObj [(''downloadUrl'', JStr ''https://edge.forgecdn.net/files/mod.jar''),
                               (''fileName'', JStr ''mod.jar'')],
               download_path = ''./mod_cache/curseforgerepository/downloads/mod.jar''\<rparr>,
              \<lparr>mod_id = ''b'',
               version = JObj [(''downloadUrl'', JStr ''https://edge.forgecdn.net/files/mod.jar''),
                               (''fileName'', JStr ''mod.jar'')],
               download_path = ''./mod_cache/curseforgerepository/downloads/mod.jar''\<rparr>],
            failed_mods = [], conflicts = []\<rparr>
   \<and> files (snd (snd (sync_mods
         (example_syncer [curseforge_repository (example_curseforge ''KEY1'')]) [''a'', ''b''] []
         (fresh_world same_file_name))))
       ''./mod_cache/curseforgerepository/downloads/mod.jar'' = Some [3]"
proof -
  have i: "fst (CurseForgeRepository_init k ''./mod_cache'' (fresh_world offline)) = Inr (example_curseforge k)" for k
    by (simp add: CurseForgeRepository_init_def ModRepository_init_def makedirs_def lower_class_name
          path_join_def fresh_world_def example_curseforge_def Let_def)
  have n: "example_curseforge ''KEY1'' \<noteq> example_curseforge ''KEY2''"
     and c: "cache_dir (example_curseforge ''KEY1'') = cache_dir (example_curseforge ''KEY2'')"
    by (simp_all add: example_curseforge_def)
  have s: "sync_mods (example_syncer [curseforge_repository (example_curseforge ''KEY1'')]) [''a'', ''b''] []
         (fresh_world same_file_name)
       = (Inr \<lparr>updated_mods =
             [\<lparr>mod_id = ''a'',
               version = JObj [(''downloadUrl'', JStr ''https://edge.forgecdn.net/files/mod.jar''),
                               (''fileName'', JStr ''mod.jar'')],
               download_path = ''./mod_cache/curseforgerepository/downloads/mod.jar''\<rparr>,
              \<lparr>mod_id = ''b'',
               version = JObj [(''downloadUrl'', JStr ''https://edge.forgecdn.net/files/mod.jar''),
                               (''fileName'', JStr ''mod.jar'')],
               download_path = ''./mod_cache/curseforgerepository/downloads/mod.jar''\<rparr>],
            failed_mods = [], conflicts = []\<rparr>,
          [Completed ''a'', Completed ''b'', DetectConflicts (ModConflictDetector_init ''./mods'')],
          (fresh_world same_file_name)
            \<lparr>requests_made := 4,
             files := [''./mod_cache/curseforgerepository/downloads/mod.jar'' \<mapsto> [3]],
             dirs := {''./mod_cache/curseforgerepository/downloads''}\<rparr>)"
    by (simp add: sync_mods_def submit_all_def example_syncer_def
        sync_single_mod_def sync_single_mod_try_def curseforge_repository_def raising_Exception_def
        example_curseforge_def fresh_world_def same_file_name_def detect_conflicts_def
        listing_of_mod_jar_def CurseForgeRepository_get_latest_version_def get_latest_version_try_def
        CurseForgeRepository_download_mod_def download_mod_try_def requests_get_def
        raise_for_status_def makedirs_def write_file_def path_join_def BASE_URL_def Let_def)
  show ?thesis unfolding s using i n c by (simp add: fresh_world_def)
qed

end
